theory Spec2Isabelle
  imports Main "HOL-Library.Sublist" "HOL-Library.List_Lexorder" "HOL-Library.Char_ord"
begin

section \<open>The notebook's own code, embedded\<close>

text \<open>
  The repository is one notebook. The code it contributes is the metadata callback
  \<open>metadata_func\<close>, the text-splitter parameters, the document prompt
  \<open>LLM_DOCUMENT_PROMPT\<close> and the formatting function \<open>_combine_documents\<close>
  (written \<open>combine_documents\<close> here: an Isabelle name cannot start with an underscore).
  Python strings are \<open>string\<close>, one \<open>char\<close> for each character, so \<open>length\<close> is
  Python's \<open>len\<close>.
\<close>

subsection \<open>Values read by \<open>json.load\<close>\<close>

text \<open>
  A float is a mantissa and a binary exponent, or one of the three special values the
  JSON reader accepts. Only its being zero matters below.
\<close>

datatype pyfloat = Finite int int | PosInf | NegInf | NaN

datatype json =
    JNull
  | JBool bool
  | JInt int
  | JFloat pyfloat
  | JStr string
  | JArr "json list"
  | JObj "(string \<times> json) list"

text \<open>Python's truth value of an object, as tested by \<open>if updated_at and ...\<close>.\<close>

fun truthy :: "json \<Rightarrow> bool" where
  "truthy JNull = False"
| "truthy (JBool b) = b"
| "truthy (JInt i) = (i \<noteq> 0)"
| "truthy (JFloat f) = (case f of Finite m e \<Rightarrow> m \<noteq> 0 | PosInf \<Rightarrow> True | NegInf \<Rightarrow> True | NaN \<Rightarrow> True)"
| "truthy (JStr s) = (s \<noteq> [])"
| "truthy (JArr xs) = (xs \<noteq> [])"
| "truthy (JObj kvs) = (kvs \<noteq> [])"

text \<open>\<open>d.get(k, default)\<close>; \<open>d.get(k)\<close> is \<open>dict_get d k JNull\<close>.\<close>

definition dict_get :: "(string \<rightharpoonup> json) \<Rightarrow> string \<Rightarrow> json \<Rightarrow> json" where
  "dict_get d k dflt = (case d k of Some v \<Rightarrow> v | None \<Rightarrow> dflt)"

subsection \<open>\<open>metadata_func\<close>\<close>

text \<open>
  \<^verbatim>\<open>
  def metadata_func(record: dict, metadata: dict) -> dict:
      metadata["name"] = record.get("name", "Unknown Name")
      metadata["url"] = record.get("url", "N/A")
      metadata["category"] = record.get("category", "Uncategorized")
      updated_at = record.get("updated_at")
      if updated_at and updated_at != "N/A":
          metadata["updated_at"] = updated_at
      else:
          metadata["updated_at"] = "1970-01-01"
      return metadata
  \<close>
  The dictionary \<open>metadata\<close> is updated in place and returned; the model returns the
  updated map. The comparison \<open>updated_at != "N/A"\<close> of an arbitrary value with a
  string is inequality of the two values.
\<close>

definition metadata_func :: "(string \<rightharpoonup> json) \<Rightarrow> (string \<rightharpoonup> json) \<Rightarrow> (string \<rightharpoonup> json)" where
  "metadata_func recd metadata =
     (let m1 = metadata(''name'' \<mapsto> dict_get recd ''name'' (JStr ''Unknown Name''));
          m2 = m1(''url'' \<mapsto> dict_get recd ''url'' (JStr ''N/A''));
          m3 = m2(''category'' \<mapsto> dict_get recd ''category'' (JStr ''Uncategorized''));
          updated_at = dict_get recd ''updated_at'' JNull
      in if truthy updated_at \<and> updated_at \<noteq> JStr ''N/A''
         then m3(''updated_at'' \<mapsto> updated_at)
         else m3(''updated_at'' \<mapsto> JStr ''1970-01-01''))"

subsection \<open>The text splitter's parameters\<close>

text \<open>
  \<^verbatim>\<open>
  text_splitter = RecursiveCharacterTextSplitter.from_tiktoken_encoder(
      chunk_size=808, chunk_overlap=400 #define chunk size and chunk overlap
  )
  \<close>
  and, in the second ingestion cell,
  \<^verbatim>\<open>
  text_splitter = RecursiveCharacterTextSplitter.from_tiktoken_encoder(chunk_size=808, chunk_overlap=400)
  \<close>
  The markdown cells around the first one say: "Here we are chunking documents into 800
  token passages with an overlap of 400 tokens" and "the chunk size of 800".
\<close>

record splitter =
  chunk_size :: nat
  chunk_overlap :: nat

definition text_splitter :: splitter where
  "text_splitter = \<lparr>chunk_size = 808, chunk_overlap = 400\<rparr>"

definition text_splitter_scrape :: splitter where
  "text_splitter_scrape = \<lparr>chunk_size = 808, chunk_overlap = 400\<rparr>"

subsection \<open>Documents and the document prompt\<close>

text \<open>
  A retrieved document has a text and a metadata dictionary. The metadata values are of
  any type \<open>'v\<close>; wherever one is put into a prompt it is converted by Python's
  \<open>str\<close>, the parameter \<open>str_of\<close> below (the identity when the value is a string).
\<close>

record 'v document =
  page_content :: string
  metadata :: "string \<rightharpoonup> 'v"

text \<open>
  \<^verbatim>\<open>
  LLM_DOCUMENT_PROMPT = PromptTemplate.from_template(
      """
  ---
  SOURCE: {name}
  {page_content}
  ---
  """
  )
  \<close>
  The template is the string \<open>\n---\nSOURCE: {name}\n{page_content}\n---\n\<close>. A
  prompt template is kept as its pieces: literal text and named variables.
\<close>

datatype piece = Lit string | Var string

type_synonym prompt_template = "piece list"

definition LLM_DOCUMENT_PROMPT :: prompt_template where
  "LLM_DOCUMENT_PROMPT =
     [Lit ([CHR 0x0A] @ ''---'' @ [CHR 0x0A] @ ''SOURCE: ''), Var ''name'',
      Lit [CHR 0x0A], Var ''page_content'',
      Lit ([CHR 0x0A] @ ''---'' @ [CHR 0x0A])]"

text \<open>
  \<open>PromptTemplate.from_template\<close> collects the variables that occur in the template
  and keeps them in \<open>input_variables\<close> as a sorted list without duplicates.
\<close>

fun template_variables :: "prompt_template \<Rightarrow> string list" where
  "template_variables [] = []"
| "template_variables (Lit s # ps) = template_variables ps"
| "template_variables (Var v # ps) = v # template_variables ps"

definition input_variables :: "prompt_template \<Rightarrow> string list" where
  "input_variables prompt = sort (remdups (template_variables prompt))"

text \<open>The \<open>ValueError\<close> of \<open>format_document\<close> carries the set of missing variables.\<close>

datatype error = ValueError "string set" | KeyError string

text \<open>
  \<open>prompt.format(**info)\<close>: every variable is replaced by its value; a variable
  without a value raises \<open>KeyError\<close>.
\<close>

fun format_prompt :: "prompt_template \<Rightarrow> (string \<rightharpoonup> string) \<Rightarrow> error + string" where
  "format_prompt [] info = Inr []"
| "format_prompt (Lit s # ps) info =
     (case format_prompt ps info of Inl e \<Rightarrow> Inl e | Inr r \<Rightarrow> Inr (s @ r))"
| "format_prompt (Var v # ps) info =
     (case info v of
        None \<Rightarrow> Inl (KeyError v)
      | Some s \<Rightarrow> (case format_prompt ps info of Inl e \<Rightarrow> Inl e | Inr r \<Rightarrow> Inr (s @ r)))"

text \<open>
  The library function \<open>format_document(doc, prompt)\<close> that \<open>_combine_documents\<close>
  calls: the values offered to the prompt are
  \<open>{"page_content": doc.page_content, **doc.metadata}\<close>; when
  \<open>set(prompt.input_variables).difference(base_info)\<close> is not empty it raises
  \<open>ValueError\<close> naming the missing variables, otherwise it formats the prompt.
\<close>

definition base_info :: "('v \<Rightarrow> string) \<Rightarrow> 'v document \<Rightarrow> (string \<rightharpoonup> string)" where
  "base_info str_of doc =
     [''page_content'' \<mapsto> page_content doc] ++ (\<lambda>k. map_option str_of (metadata doc k))"

definition format_document :: "('v \<Rightarrow> string) \<Rightarrow> 'v document \<Rightarrow> prompt_template \<Rightarrow> error + string" where
  "format_document str_of doc prompt =
     (let info = base_info str_of doc;
          missing_metadata = Set.filter (\<lambda>k. info k = None) (set (input_variables prompt))
      in if missing_metadata \<noteq> {} then Inl (ValueError missing_metadata)
         else format_prompt prompt info)"

subsection \<open>\<open>_combine_documents\<close>\<close>

text \<open>
  \<^verbatim>\<open>
  def _combine_documents(
      docs, document_prompt=LLM_DOCUMENT_PROMPT, document_separator="\n\n"
  ):
      doc_strings = [format_document(doc, document_prompt) for doc in docs]
      return document_separator.join(doc_strings)
  \<close>
  \<open>doc_strings\<close> is the list comprehension: it stops at the first document whose
  formatting raises. \<open>join\<close> is \<open>str.join\<close>. The function takes no size budget.
\<close>

fun doc_strings :: "('v \<Rightarrow> string) \<Rightarrow> prompt_template \<Rightarrow> 'v document list \<Rightarrow> error + string list" where
  "doc_strings str_of document_prompt [] = Inr []"
| "doc_strings str_of document_prompt (doc # docs) =
     (case format_document str_of doc document_prompt of
        Inl e \<Rightarrow> Inl e
      | Inr s \<Rightarrow> (case doc_strings str_of document_prompt docs of
                   Inl e \<Rightarrow> Inl e
                 | Inr ss \<Rightarrow> Inr (s # ss)))"

fun join :: "string \<Rightarrow> string list \<Rightarrow> string" where
  "join sep [] = []"
| "join sep [s] = s"
| "join sep (s # t # ss) = s @ sep @ join sep (t # ss)"

definition document_separator :: string where
  "document_separator = [CHR 0x0A, CHR 0x0A]"

definition combine_documents :: "('v \<Rightarrow> string) \<Rightarrow> 'v document list \<Rightarrow> prompt_template \<Rightarrow> string \<Rightarrow> error + string" where
  "combine_documents str_of docs document_prompt sep =
     (case doc_strings str_of document_prompt docs of
        Inl e \<Rightarrow> Inl e
      | Inr ss \<Rightarrow> Inr (join sep ss))"

section \<open>Metadata extraction\<close>

text \<open>
  C9, as stated: the metadata carries the record's \<open>updated_at\<close> value when present and
  the sentinel \<open>1970-01-01\<close> when it is missing. The first half fails: a record whose
  \<open>updated_at\<close> is present with the value \<open>N/A\<close> gets the sentinel, not its own value.
\<close>

theorem metadata_func_present_counterexample:
  "[''updated_at'' \<mapsto> JStr ''N/A''] ''updated_at'' = Some (JStr ''N/A'') \<and>
   metadata_func [''updated_at'' \<mapsto> JStr ''N/A''] Map.empty ''updated_at''
     = Some (JStr ''1970-01-01'') \<and>
   metadata_func [''updated_at'' \<mapsto> JStr ''N/A''] Map.empty ''updated_at''
     \<noteq> [''updated_at'' \<mapsto> JStr ''N/A''] ''updated_at''"
  by (simp add: metadata_func_def dict_get_def)

text \<open>
  C9, amended: the metadata always carries a last-updated timestamp. It is the record's
  \<open>updated_at\<close> value when that value is present, true in Python's sense (not null,
  false, zero or empty) and different from \<open>N/A\<close>; it is the sentinel \<open>1970-01-01\<close>
  in every other case, in particular when the key is missing.
\<close>

theorem metadata_func_updated_at:
  "metadata_func recd md ''updated_at'' =
     Some (case recd ''updated_at'' of
             None \<Rightarrow> JStr ''1970-01-01''
           | Some v \<Rightarrow> if truthy v \<and> v \<noteq> JStr ''N/A'' then v else JStr ''1970-01-01'')"
  by (simp add: metadata_func_def dict_get_def Let_def split: option.splits)

theorem metadata_func_updated_at_witness:
  "metadata_func [''updated_at'' \<mapsto> JStr ''2023-05-01''] Map.empty ''updated_at''
     = Some (JStr ''2023-05-01'') \<and>
   metadata_func [''updated_at'' \<mapsto> JStr ''''] Map.empty ''updated_at''
     = Some (JStr ''1970-01-01'') \<and>
   metadata_func [''name'' \<mapsto> JStr ''a''] Map.empty ''updated_at''
     = Some (JStr ''1970-01-01'')"
  using metadata_func_updated_at [of "[''updated_at'' \<mapsto> JStr ''2023-05-01'']" Map.empty]
        metadata_func_updated_at [of "[''updated_at'' \<mapsto> JStr '''']" Map.empty]
        metadata_func_updated_at [of "[''name'' \<mapsto> JStr ''a'']" Map.empty]
  by simp

section \<open>Chunking parameters\<close>

text \<open>
  C10: the ingestion splits documents with chunk size 800 and overlap 400. Both splitters
  of the notebook are built with chunk size 808; the overlap is 400.
\<close>

theorem text_splitter_parameters:
  "chunk_size text_splitter = 808 \<and> chunk_overlap text_splitter = 400 \<and>
   chunk_size text_splitter_scrape = 808 \<and> chunk_overlap text_splitter_scrape = 400 \<and>
   chunk_size text_splitter \<noteq> 800"
  by (simp add: text_splitter_def text_splitter_scrape_def)

section \<open>Formatting retrieved documents\<close>

subsection \<open>What the document prompt renders\<close>

text \<open>
  The text of a document always has a value for the prompt, and a metadata entry
  \<open>page_content\<close> would replace it; \<open>name\<close> comes from the metadata alone.
\<close>

lemma base_info_page_content:
  "base_info str_of d ''page_content'' =
     Some (case metadata d ''page_content'' of None \<Rightarrow> page_content d | Some v \<Rightarrow> str_of v)"
  by (simp add: base_info_def map_add_def split: option.splits)

lemma base_info_name:
  "base_info str_of d ''name'' = map_option str_of (metadata d ''name'')"
  by (simp add: base_info_def map_add_def split: option.splits)

lemma missing_LLM:
  "Set.filter (\<lambda>k. base_info str_of d k = None) (set (input_variables LLM_DOCUMENT_PROMPT)) =
     (if metadata d ''name'' = None then {''name''} else {})"
  by (auto simp: input_variables_def LLM_DOCUMENT_PROMPT_def base_info_page_content base_info_name)

lemma format_document_LLM:
  "format_document str_of d LLM_DOCUMENT_PROMPT =
     (case metadata d ''name'' of
        None \<Rightarrow> Inl (ValueError {''name''})
      | Some n \<Rightarrow>
          Inr ([CHR 0x0A] @ ''---'' @ [CHR 0x0A] @ ''SOURCE: '' @ str_of n @ [CHR 0x0A]
               @ (case metadata d ''page_content'' of None \<Rightarrow> page_content d | Some v \<Rightarrow> str_of v)
               @ [CHR 0x0A] @ ''---'' @ [CHR 0x0A]))"
  unfolding format_document_def Let_def missing_LLM
  by (simp add: LLM_DOCUMENT_PROMPT_def base_info_page_content base_info_name
        split: option.splits)

lemma format_document_LLM_nonempty:
  "format_document str_of d LLM_DOCUMENT_PROMPT = Inr s \<Longrightarrow> s \<noteq> []"
  by (auto simp: format_document_LLM split: option.splits)

lemma doc_strings_map:
  "doc_strings str_of p docs = Inr ss \<longleftrightarrow> map (\<lambda>d. format_document str_of d p) docs = map Inr ss"
proof (induction docs arbitrary: ss)
  case Nil
  show ?case by auto
next
  case (Cons d docs)
  show ?case
  proof (cases "format_document str_of d p")
    case (Inl e)
    then show ?thesis by (cases ss) auto
  next
    case (Inr s)
    note fd = this
    show ?thesis
    proof (cases "doc_strings str_of p docs")
      case (Inl e)
      with Cons.IH fd show ?thesis by (cases ss) auto
    next
      case (Inr rest)
      with Cons.IH fd show ?thesis by (cases ss) auto
    qed
  qed
qed

text \<open>
  With the default prompt the list comprehension either renders every document or stops
  at a document without a name.
\<close>

lemma doc_strings_LLM:
  "doc_strings str_of LLM_DOCUMENT_PROMPT docs =
     (if \<forall>d \<in> set docs. metadata d ''name'' \<noteq> None
      then Inr (map (\<lambda>d. [CHR 0x0A] @ ''---'' @ [CHR 0x0A] @ ''SOURCE: ''
                          @ str_of (the (metadata d ''name'')) @ [CHR 0x0A]
                          @ (case metadata d ''page_content'' of
                               None \<Rightarrow> page_content d | Some v \<Rightarrow> str_of v)
                          @ [CHR 0x0A] @ ''---'' @ [CHR 0x0A]) docs)
      else Inl (ValueError {''name''}))"
proof (induction docs)
  case Nil
  show ?case by simp
next
  case (Cons d docs)
  show ?case
  proof (cases "metadata d ''name''")
    case None
    then show ?thesis by (simp add: format_document_LLM)
  next
    case (Some n)
    with Cons.IH show ?thesis by (simp add: format_document_LLM)
  qed
qed

subsection \<open>What \<open>join\<close> writes\<close>

text \<open>
  Put the separator in front of every string, concatenate, and take the first separator
  away: that is the joined string.
\<close>

lemma join_closed_form:
  "join sep ss = drop (length sep) (concat (map (\<lambda>s. sep @ s) ss))"
  by (induction sep ss rule: join.induct) simp_all

lemma length_join:
  "length (join sep ss) = sum_list (map length ss) + length sep * (length ss - 1)"
  by (induction sep ss rule: join.induct) simp_all

lemma join_Cons_nonempty: "s \<noteq> [] \<Longrightarrow> join sep (s # ss) \<noteq> []"
  by (cases ss) simp_all

lemma join_snoc: "ss \<noteq> [] \<Longrightarrow> join sep (ss @ [t]) = join sep ss @ sep @ t"
  by (induction sep ss rule: join.induct) simp_all

lemma join_append_prefix: "prefix (join sep ss) (join sep (ss @ ts))"
proof (induction ts rule: rev_induct)
  case Nil
  show ?case by simp
next
  case (snoc t ts)
  show ?case
  proof (cases "ss @ ts = []")
    case True
    then show ?thesis by simp
  next
    case False
    then have "join sep (ss @ ts @ [t]) = join sep (ss @ ts) @ sep @ t"
      using join_snoc [of "ss @ ts" sep t] by simp
    with snoc show ?thesis by (simp add: prefix_def) (metis append.assoc)
  qed
qed

lemma join_take_prefix: "prefix (join sep (take n ss)) (join sep ss)"
  using join_append_prefix [of sep "take n ss" "drop n ss"] by simp

text \<open>A document with a long enough text makes the context longer than any given size.\<close>

lemma combine_documents_longer_than:
  "combine_documents (\<lambda>s. s)
     [\<lparr>page_content = replicate max_chars (CHR ''a''), metadata = [''name'' \<mapsto> ''A'']\<rparr>]
     LLM_DOCUMENT_PROMPT document_separator
   = Inr ([CHR 0x0A] @ ''---'' @ [CHR 0x0A] @ ''SOURCE: A'' @ [CHR 0x0A]
          @ replicate max_chars (CHR ''a'') @ [CHR 0x0A] @ ''---'' @ [CHR 0x0A])"
  by (simp add: combine_documents_def format_document_LLM)

subsection \<open>The context is every document, joined\<close>

text \<open>
  C8, as stated: for every list of documents the result is the joined renderings, each
  with the document's source name and full page content. A document without a
  \<open>name\<close> in its metadata makes \<open>_combine_documents\<close> raise \<open>ValueError\<close>
  instead of returning, and for a document whose metadata has an entry
  \<open>page_content\<close> the rendering shows that entry, not the document's text.
\<close>

theorem combine_documents_every_list_counterexample:
  "combine_documents (\<lambda>s. s) [\<lparr>page_content = ''hi'', metadata = Map.empty\<rparr>]
     LLM_DOCUMENT_PROMPT document_separator
   = Inl (ValueError {''name''})
   \<and> combine_documents (\<lambda>s. s)
       [\<lparr>page_content = ''hi'', metadata = [''name'' \<mapsto> ''A'', ''page_content'' \<mapsto> ''zz'']\<rparr>]
       LLM_DOCUMENT_PROMPT document_separator
   = Inr ([CHR 0x0A] @ ''---'' @ [CHR 0x0A] @ ''SOURCE: A'' @ [CHR 0x0A] @ ''zz''
          @ [CHR 0x0A] @ ''---'' @ [CHR 0x0A])
   \<and> combine_documents (\<lambda>s. s)
       [\<lparr>page_content = ''hi'', metadata = [''name'' \<mapsto> ''A'', ''page_content'' \<mapsto> ''zz'']\<rparr>]
       LLM_DOCUMENT_PROMPT document_separator
   \<noteq> Inr ([CHR 0x0A] @ ''---'' @ [CHR 0x0A] @ ''SOURCE: A'' @ [CHR 0x0A] @ ''hi''
          @ [CHR 0x0A] @ ''---'' @ [CHR 0x0A])"
  by (simp add: combine_documents_def format_document_LLM)

text \<open>
  C8, amended: for every list of documents, \<open>_combine_documents\<close> with its default
  prompt and separator raises \<open>ValueError\<close> when some document has no \<open>name\<close> in
  its metadata, and otherwise returns exactly the renderings
  \<open>\n---\nSOURCE: <name>\n<content>\n---\n\<close> of all the documents, in the input
  order, with \<open>\n\n\<close> between neighbours, where the content is the document's full
  page content (or the metadata entry \<open>page_content\<close> when there is one): every
  document whole, no size budget. The empty list gives the empty string. The joined
  string is written without \<open>join\<close>: the separator in front of every rendering, all
  concatenated, the first two characters dropped.
\<close>

theorem combine_documents_exact:
  "combine_documents str_of docs LLM_DOCUMENT_PROMPT document_separator =
     (if \<forall>d \<in> set docs. metadata d ''name'' \<noteq> None
      then Inr (drop 2 (concat (map (\<lambda>d. [CHR 0x0A, CHR 0x0A]
                          @ [CHR 0x0A] @ ''---'' @ [CHR 0x0A] @ ''SOURCE: ''
                          @ str_of (the (metadata d ''name'')) @ [CHR 0x0A]
                          @ (case metadata d ''page_content'' of
                               None \<Rightarrow> page_content d | Some v \<Rightarrow> str_of v)
                          @ [CHR 0x0A] @ ''---'' @ [CHR 0x0A]) docs)))
      else Inl (ValueError {''name''}))
   \<and> combine_documents str_of [] LLM_DOCUMENT_PROMPT document_separator = Inr []"
  by (simp add: combine_documents_def doc_strings_LLM join_closed_form
        document_separator_def comp_def numeral_2_eq_2)

theorem combine_documents_exact_witness:
  "combine_documents (\<lambda>s. s)
     [\<lparr>page_content = ''one'', metadata = [''name'' \<mapsto> ''X'']\<rparr>,
      \<lparr>page_content = ''two'', metadata = [''name'' \<mapsto> ''Y'']\<rparr>,
      \<lparr>page_content = ''three'', metadata = [''name'' \<mapsto> ''Z'']\<rparr>]
     LLM_DOCUMENT_PROMPT document_separator
   = Inr ([CHR 0x0A] @ ''---'' @ [CHR 0x0A] @ ''SOURCE: X'' @ [CHR 0x0A] @ ''one'' @ [CHR 0x0A] @ ''---'' @ [CHR 0x0A]
          @ [CHR 0x0A, CHR 0x0A]
          @ [CHR 0x0A] @ ''---'' @ [CHR 0x0A] @ ''SOURCE: Y'' @ [CHR 0x0A] @ ''two'' @ [CHR 0x0A] @ ''---'' @ [CHR 0x0A]
          @ [CHR 0x0A, CHR 0x0A]
          @ [CHR 0x0A] @ ''---'' @ [CHR 0x0A] @ ''SOURCE: Z'' @ [CHR 0x0A] @ ''three'' @ [CHR 0x0A] @ ''---'' @ [CHR 0x0A])"
  using combine_documents_exact [of "\<lambda>s. s"
     "[\<lparr>page_content = ''one'', metadata = [''name'' \<mapsto> ''X'']\<rparr>,
      \<lparr>page_content = ''two'', metadata = [''name'' \<mapsto> ''Y'']\<rparr>,
      \<lparr>page_content = ''three'', metadata = [''name'' \<mapsto> ''Z'']\<rparr>]"]
  by simp

subsection \<open>No size budget\<close>

text \<open>
  C3, as stated: the assembled string is never longer than \<open>max_chars\<close>, passages
  that do not fit being dropped. \<open>_combine_documents\<close> has no such parameter and drops
  nothing: with a budget of 10 characters, one document named \<open>A\<close> with the text
  \<open>hi\<close> gives 22 characters.
\<close>

theorem combine_documents_budget_counterexample:
  "combine_documents (\<lambda>s. s) [\<lparr>page_content = ''hi'', metadata = [''name'' \<mapsto> ''A'']\<rparr>]
     LLM_DOCUMENT_PROMPT document_separator
   = Inr ([CHR 0x0A] @ ''---'' @ [CHR 0x0A] @ ''SOURCE: A'' @ [CHR 0x0A] @ ''hi'' @ [CHR 0x0A] @ ''---'' @ [CHR 0x0A])
   \<and> \<not> length ([CHR 0x0A] @ ''---'' @ [CHR 0x0A] @ ''SOURCE: A'' @ [CHR 0x0A] @ ''hi'' @ [CHR 0x0A] @ ''---'' @ [CHR 0x0A]) \<le> (10::nat)"
  by (simp add: combine_documents_def format_document_LLM)

text \<open>
  C3, amended: \<open>_combine_documents\<close> applies no budget. Whenever every document can be
  rendered (\<open>ss\<close> are the renderings of \<open>docs\<close>, one for each, in order), it returns
  all of them with the separator between neighbours: the separator in front of every
  rendering, all concatenated, the first separator dropped. Each rendering is there
  whole and in the given order; the result for the first \<open>n\<close> documents has the same
  form and is a prefix of the result for all of them; the length of the result is the sum
  of the lengths of the renderings plus one separator between neighbours; and the result
  is not bounded by any \<open>max_chars\<close>: for every \<open>max_chars\<close> some list of documents
  gives a longer string.
\<close>

theorem combine_documents_whole_in_order:
  assumes "map (\<lambda>d. format_document str_of d prompt) docs = map Inr ss"
    and "n \<le> length docs"
  shows "combine_documents str_of docs prompt sep
           = Inr (drop (length sep) (concat (map (\<lambda>s. sep @ s) ss))) \<and>
         length (drop (length sep) (concat (map (\<lambda>s. sep @ s) ss)))
           = sum_list (map length ss) + length sep * (length docs - 1) \<and>
         combine_documents str_of (take n docs) prompt sep
           = Inr (drop (length sep) (concat (map (\<lambda>s. sep @ s) (take n ss)))) \<and>
         prefix (drop (length sep) (concat (map (\<lambda>s. sep @ s) (take n ss))))
                (drop (length sep) (concat (map (\<lambda>s. sep @ s) ss))) \<and>
         (\<exists>(ds :: string document list) out.
             combine_documents (\<lambda>s. s) ds LLM_DOCUMENT_PROMPT document_separator = Inr out
           \<and> max_chars < length out)"
proof -
  from assms(1) have len: "length docs = length ss"
    by (metis length_map)
  from assms(1) have all: "doc_strings str_of prompt docs = Inr ss"
    by (simp add: doc_strings_map)
  from assms(1) have "map (\<lambda>d. format_document str_of d prompt) (take n docs) = map Inr (take n ss)"
    by (metis take_map)
  then have part: "doc_strings str_of prompt (take n docs) = Inr (take n ss)"
    by (simp add: doc_strings_map)
  have whole: "combine_documents str_of docs prompt sep = Inr (join sep ss)"
    using all by (simp add: combine_documents_def)
  have first: "combine_documents str_of (take n docs) prompt sep = Inr (join sep (take n ss))"
    using part by (simp add: combine_documents_def)
  have size: "length (join sep ss) = sum_list (map length ss) + length sep * (length docs - 1)"
    using len by (simp add: length_join)
  have pre: "prefix (join sep (take n ss)) (join sep ss)"
    by (rule join_take_prefix)
  have "max_chars < length ([CHR 0x0A] @ ''---'' @ [CHR 0x0A] @ ''SOURCE: A'' @ [CHR 0x0A]
          @ replicate max_chars (CHR ''a'') @ [CHR 0x0A] @ ''---'' @ [CHR 0x0A])"
    by simp
  with combine_documents_longer_than [of max_chars]
  have unbounded: "\<exists>(ds :: string document list) out.
             combine_documents (\<lambda>s. s) ds LLM_DOCUMENT_PROMPT document_separator = Inr out
           \<and> max_chars < length out"
    by blast
  from whole first size pre unbounded show ?thesis
    by (simp only: join_closed_form)
qed

theorem combine_documents_whole_in_order_witness:
  "combine_documents (\<lambda>s. s)
     [\<lparr>page_content = ''hi'', metadata = [''name'' \<mapsto> ''A'']\<rparr>,
      \<lparr>page_content = ''yo'', metadata = [''name'' \<mapsto> ''B'']\<rparr>]
     LLM_DOCUMENT_PROMPT document_separator
   = Inr ([CHR 0x0A] @ ''---'' @ [CHR 0x0A] @ ''SOURCE: A'' @ [CHR 0x0A] @ ''hi'' @ [CHR 0x0A] @ ''---'' @ [CHR 0x0A]
          @ [CHR 0x0A, CHR 0x0A]
          @ [CHR 0x0A] @ ''---'' @ [CHR 0x0A] @ ''SOURCE: B'' @ [CHR 0x0A] @ ''yo'' @ [CHR 0x0A] @ ''---'' @ [CHR 0x0A])
   \<and> length ([CHR 0x0A] @ ''---'' @ [CHR 0x0A] @ ''SOURCE: A'' @ [CHR 0x0A] @ ''hi'' @ [CHR 0x0A] @ ''---'' @ [CHR 0x0A]
          @ [CHR 0x0A, CHR 0x0A]
          @ [CHR 0x0A] @ ''---'' @ [CHR 0x0A] @ ''SOURCE: B'' @ [CHR 0x0A] @ ''yo'' @ [CHR 0x0A] @ ''---'' @ [CHR 0x0A])
     = (46::nat)
   \<and> combine_documents (\<lambda>s. s)
     [\<lparr>page_content = ''hi'', metadata = [''name'' \<mapsto> ''A'']\<rparr>]
     LLM_DOCUMENT_PROMPT document_separator
   = Inr ([CHR 0x0A] @ ''---'' @ [CHR 0x0A] @ ''SOURCE: A'' @ [CHR 0x0A] @ ''hi'' @ [CHR 0x0A] @ ''---'' @ [CHR 0x0A])"
  using combine_documents_whole_in_order [of "\<lambda>s. s" LLM_DOCUMENT_PROMPT
     "[\<lparr>page_content = ''hi'', metadata = [''name'' \<mapsto> ''A'']\<rparr>,
      \<lparr>page_content = ''yo'', metadata = [''name'' \<mapsto> ''B'']\<rparr>]"
     "[[CHR 0x0A] @ ''---'' @ [CHR 0x0A] @ ''SOURCE: A'' @ [CHR 0x0A] @ ''hi'' @ [CHR 0x0A] @ ''---'' @ [CHR 0x0A],
        [CHR 0x0A] @ ''---'' @ [CHR 0x0A] @ ''SOURCE: B'' @ [CHR 0x0A] @ ''yo'' @ [CHR 0x0A] @ ''---'' @ [CHR 0x0A]]"
     1 document_separator 0]
  by (simp add: format_document_LLM document_separator_def)

subsection \<open>The empty context\<close>

text \<open>
  C6, as stated: the result is also empty when \<open>max_chars\<close> is too small for the first
  passage. With a budget of 5 characters the rendering of one document named \<open>A\<close> with
  the text \<open>hello\<close> does not fit, and the result is not empty.
\<close>

theorem combine_documents_small_budget_counterexample:
  "format_document (\<lambda>s. s) \<lparr>page_content = ''hello'', metadata = [''name'' \<mapsto> ''A'']\<rparr> LLM_DOCUMENT_PROMPT
   = Inr ([CHR 0x0A] @ ''---'' @ [CHR 0x0A] @ ''SOURCE: A'' @ [CHR 0x0A] @ ''hello'' @ [CHR 0x0A] @ ''---'' @ [CHR 0x0A])
   \<and> (5::nat) < length ([CHR 0x0A] @ ''---'' @ [CHR 0x0A] @ ''SOURCE: A'' @ [CHR 0x0A] @ ''hello'' @ [CHR 0x0A] @ ''---'' @ [CHR 0x0A])
   \<and> combine_documents (\<lambda>s. s) [\<lparr>page_content = ''hello'', metadata = [''name'' \<mapsto> ''A'']\<rparr>]
       LLM_DOCUMENT_PROMPT document_separator \<noteq> Inr []"
  by (simp add: combine_documents_def format_document_LLM)

text \<open>
  C6, amended: with the default prompt, \<open>_combine_documents\<close> returns the empty string
  exactly when the list of documents is empty; for a list that is not empty it returns a
  string that is not empty, or raises when a document lacks the \<open>name\<close> the prompt needs.
\<close>

theorem combine_documents_empty_iff:
  "combine_documents str_of docs LLM_DOCUMENT_PROMPT sep = Inr [] \<longleftrightarrow> docs = []"
proof (cases docs)
  case Nil
  then show ?thesis by (simp add: combine_documents_def)
next
  case (Cons d ds)
  then show ?thesis
    by (auto simp: combine_documents_def join_Cons_nonempty
          dest: format_document_LLM_nonempty split: sum.splits)
qed

end
